theory Spec2Isabelle
  imports Main
begin

section \<open>Strings, bytes and values of the host language\<close>

text \<open>
  A string of a request (its method, path, query, headers and body), and the message of an
  error, is modelled as a \<^typ>\<open>string\<close> whose characters are its code units; on that side
  the model covers the strings whose code units are below 256. A string of a store reply is
  the list of its UTF-16 code units, each a natural number below 65536. A byte is a natural
  number below 256.
\<close>

type_synonym ustring = "nat list"

text \<open>A string of the first kind, as a list of code units.\<close>

definition ustr :: "string \<Rightarrow> ustring" where
  "ustr s = map of_char s"

definition toLowerCase_char :: "char \<Rightarrow> char" where
  "toLowerCase_char c =
     (let n = (of_char c :: nat)
      in if (65 \<le> n \<and> n \<le> 90) \<or> (192 \<le> n \<and> n \<le> 222 \<and> n \<noteq> 215)
         then char_of (n + 32) else c)"

definition toLowerCase :: "string \<Rightarrow> string" where
  "toLowerCase s = map toLowerCase_char s"

text \<open>The white space and line terminators that \<open>trim\<close> removes, among the code units below 256.\<close>

definition is_space :: "char \<Rightarrow> bool" where
  "is_space c = ((of_char c :: nat) \<in> {9, 10, 11, 12, 13, 32, 160})"

definition trim :: "string \<Rightarrow> string" where
  "trim s = rev (dropWhile is_space (rev (dropWhile is_space s)))"

definition startsWith :: "string \<Rightarrow> string \<Rightarrow> bool" where
  "startsWith s p = (take (length p) s = p)"

text \<open>\<open>s.split(c)\<close> for a one-character separator: the empty string gives one empty piece.\<close>

fun split :: "string \<Rightarrow> char \<Rightarrow> string list" where
  "split [] c = [[]]"
| "split (x # xs) c =
     (if x = c then [] # split xs c
      else (case split xs c of [] \<Rightarrow> [[x]] | p # ps \<Rightarrow> (x # p) # ps))"

text \<open>Decimal digits of a natural number, as the canonical form of an array index.\<close>

definition digit :: "nat \<Rightarrow> char" where
  "digit d = ''0123456789'' ! (d mod 10)"

fun decimal :: "nat \<Rightarrow> string" where
  "decimal n = (if n < 10 then [digit n] else decimal (n div 10) @ [digit (n mod 10)])"

declare decimal.simps [simp del]

text \<open>
  The values that \<open>JSON.parse\<close> returns for a request body: null, booleans, numbers (the
  integers), strings, arrays, and plain objects. An object is the list of its own entries in
  the order of \<open>Object.entries\<close>.
\<close>

datatype js_value =
    JNull
  | JBool bool
  | JNum int
  | JStr string
  | JArr "js_value list"
  | JObj "(string \<times> js_value) list"

text \<open>
  The values of a store reply, which the formatter handles dynamically (\<open>any\<close>,
  \<open>RedisResponse\<close>): null, booleans, numbers (the integers), strings, byte buffers, arrays,
  and plain objects. An object is the list of its own entries in the order of
  \<open>Object.entries\<close>.
\<close>

datatype reply =
    RNull
  | RBool bool
  | RNum int
  | RStr ustring
  | RBuf "nat list"
  | RArr "reply list"
  | RObj "(ustring \<times> reply) list"

subsection \<open>\<open>Buffer.from(value, 'utf8').toString('base64')\<close>\<close>

text \<open>
  The UTF-8 bytes of a string. A high surrogate followed by a low surrogate is one code
  point of four bytes; a surrogate on its own is written as U+FFFD.
\<close>

fun utf8 :: "ustring \<Rightarrow> nat list" where
  "utf8 [] = []"
| "utf8 (u # us) =
     (if u < 128 then u # utf8 us
      else if u < 2048 then (192 + u div 64) # (128 + u mod 64) # utf8 us
      else if 55296 \<le> u \<and> u < 56320 then
        (case us of
           [] \<Rightarrow> [239, 191, 189]
         | l # rest \<Rightarrow>
             if 56320 \<le> l \<and> l < 57344
             then (let c = 65536 + (u - 55296) * 1024 + (l - 56320)
                   in (240 + c div 262144) # (128 + (c div 4096) mod 64)
                        # (128 + (c div 64) mod 64) # (128 + c mod 64) # utf8 rest)
             else 239 # 191 # 189 # utf8 us)
      else if 56320 \<le> u \<and> u < 57344 then 239 # 191 # 189 # utf8 us
      else (224 + u div 4096) # (128 + (u div 64) mod 64) # (128 + u mod 64) # utf8 us)"

definition base64_alphabet :: string where
  "base64_alphabet = ''ABCDEFGHIJKLMNOPQRSTUVWXYZabcdefghijklmnopqrstuvwxyz0123456789+/''"

definition b64 :: "nat \<Rightarrow> char" where
  "b64 i = base64_alphabet ! (i mod 64)"

fun base64 :: "nat list \<Rightarrow> string" where
  "base64 [] = []"
| "base64 [a] = [b64 (a div 4), b64 ((a mod 4) * 16), CHR ''='', CHR ''='']"
| "base64 [a, b] =
     [b64 (a div 4), b64 ((a mod 4) * 16 + b div 16), b64 ((b mod 16) * 4), CHR ''='']"
| "base64 (a # b # c # rest) =
     [b64 (a div 4), b64 ((a mod 4) * 16 + b div 16), b64 ((b mod 16) * 4 + c div 64),
      b64 (c mod 64)] @ base64 rest"

section \<open>Requests\<close>

text \<open>
  The parts of a \<open>Request\<close> that the server reads: the method, the path and the query
  entries of its URL (in the order of \<open>searchParams.entries()\<close>), its headers, and the text
  of its body (\<open>None\<close> when reading the body fails).
\<close>

record request =
  req_method :: string
  req_pathname :: string
  req_searchParams :: "(string \<times> string) list"
  req_headers :: "(string \<times> string) list"
  req_body :: "string option"

text \<open>\<open>headers.get(name)\<close>: header names are matched without regard to case.\<close>

definition headers_get :: "(string \<times> string) list \<Rightarrow> string \<Rightarrow> string option" where
  "headers_get hs name = map_of (map (\<lambda>(n, v). (toLowerCase n, v)) hs) (toLowerCase name)"

definition searchParams_has :: "(string \<times> string) list \<Rightarrow> string \<Rightarrow> bool" where
  "searchParams_has ps k = (k \<in> set (map fst ps))"

definition searchParams_get :: "(string \<times> string) list \<Rightarrow> string \<Rightarrow> string option" where
  "searchParams_get ps k = map_of ps k"

section \<open>Response formatting\<close>

text \<open>
  \<open>Object.entries\<close> of a value that is an object but neither null nor an array: the entries
  of a plain object, and the index/byte entries of a byte buffer.
\<close>

definition buffer_entries :: "nat list \<Rightarrow> (ustring \<times> reply) list" where
  "buffer_entries bs = map (\<lambda>(i, b). (ustr (decimal i), RNum (int b))) (enumerate 0 bs)"

text \<open>
  \<open>encodeToBase64\<close>. The tests of the source are taken in its order: a string other than
  \<open>OK\<close>, an array, an object that is not null (a plain object or a buffer; the entries of a
  buffer are numbers, which the recursive call returns as they are), anything else.

  For an object the source assigns \<open>encodedObj[key] = encodeToBase64(val)\<close> on a fresh \<open>{}\<close>,
  entry by entry. For the key \<open>__proto__\<close> that assignment runs the setter inherited from
  \<open>Object.prototype\<close> and creates no entry of \<open>encodedObj\<close>, so the result has the encoded
  entries of every other key.
\<close>

primrec encodeToBase64 :: "reply \<Rightarrow> reply" where
  "encodeToBase64 (RStr s) = (if s \<noteq> ustr ''OK'' then RStr (ustr (base64 (utf8 s))) else RStr s)"
| "encodeToBase64 (RArr xs) = RArr (map encodeToBase64 xs)"
| "encodeToBase64 (RObj kvs) =
     RObj (filter (\<lambda>kv. fst kv \<noteq> ustr ''__proto__'') (map (map_prod id encodeToBase64) kvs))"
| "encodeToBase64 (RBuf bs) = RObj (buffer_entries bs)"
| "encodeToBase64 RNull = RNull"
| "encodeToBase64 (RBool b) = RBool b"
| "encodeToBase64 (RNum n) = RNum n"

text \<open>\<open>typeof reply === 'object' && reply !== null && !Array.isArray(reply)\<close>\<close>

fun is_object :: "reply \<Rightarrow> bool" where
  "is_object (RObj kvs) = True"
| "is_object (RBuf bs) = True"
| "is_object v = False"

fun entries :: "reply \<Rightarrow> (ustring \<times> reply) list" where
  "entries (RObj kvs) = kvs"
| "entries (RBuf bs) = buffer_entries bs"
| "entries v = []"

text \<open>\<open>Object.entries(reply).flat()\<close>: each entry contributes its key, then its value.\<close>

definition flat_entries :: "(ustring \<times> reply) list \<Rightarrow> reply list" where
  "flat_entries kvs = concat (map (\<lambda>(k, v). [RStr k, v]) kvs)"

definition formatRedisResponse :: "reply \<Rightarrow> request \<Rightarrow> reply" where
  "formatRedisResponse reply request =
     (let upstashEncoding =
            map_option toLowerCase (headers_get (req_headers request) ''Upstash-Encoding'');
          reply' = (if is_object reply then RArr (flat_entries (entries reply)) else reply);
          encodeBase64 = (upstashEncoding = Some ''base64'')
      in if encodeBase64 then encodeToBase64 reply' else reply')"

section \<open>Authentication\<close>

text \<open>
  \<open>checkAuth\<close>, with the configured secret \<open>env.AUTH_TOKEN\<close> as a parameter. A header that
  is absent counts as the empty string; the \<open>_token\<close> query parameter is read only when the
  token taken from the header is empty.
\<close>

definition checkAuth :: "string \<Rightarrow> request \<Rightarrow> bool" where
  "checkAuth AUTH_TOKEN request =
     (let authHeader =
            (case headers_get (req_headers request) ''Authorization'' of
               None \<Rightarrow> [] | Some h \<Rightarrow> h);
          token = (if startsWith authHeader ''Bearer '' then drop 7 authHeader else []);
          token' =
            (if token = [] \<and> searchParams_has (req_searchParams request) ''_token''
             then (case searchParams_get (req_searchParams request) ''_token'' of
                     None \<Rightarrow> [] | Some t \<Rightarrow> t)
             else token)
      in token' = AUTH_TOKEN)"

section \<open>Building a command\<close>

text \<open>
  The message of a thrown \<open>Error\<close>. Two messages are not written out as text: the message
  of the schema library's validation error, and the message of \<open>executeBatchCommands\<close> for
  an empty command (\<open>Each command must be a non-empty array\<close>, whose hyphen is a code unit
  above 255).
\<close>

datatype message = Text string | SchemaIssues | NonEmptyArrayExpected

text \<open>An element of a validated command array: \<open>string | number\<close>.\<close>

datatype item = IStr string | INum int

fun item_of :: "js_value \<Rightarrow> item option" where
  "item_of (JStr s) = Some (IStr s)"
| "item_of (JNum n) = Some (INum n)"
| "item_of v = None"

text \<open>\<open>String(x)\<close> for a string or a number; \<open>numstr\<close> renders a number.\<close>

fun String_item :: "(int \<Rightarrow> string) \<Rightarrow> item \<Rightarrow> string" where
  "String_item numstr (IStr s) = s"
| "String_item numstr (INum n) = numstr n"

text \<open>
  \<open>genericCommandSchema.parse\<close>: an array of strings and numbers that is not empty and
  starts with a string; \<open>None\<close> when the validation throws.
\<close>

definition genericCommandSchema :: "js_value \<Rightarrow> item list option" where
  "genericCommandSchema v =
     (case v of
        JArr xs \<Rightarrow>
          (case those (map item_of xs) of
             None \<Rightarrow> None
           | Some arr \<Rightarrow> (case arr of IStr c # rest \<Rightarrow> Some arr | _ \<Rightarrow> None))
      | _ \<Rightarrow> None)"

record command =
  command :: string
  args :: "string list"

text \<open>The loop over \<open>url.searchParams.entries()\<close> that fills \<open>queryArgs\<close>.\<close>

fun queryArgs_of :: "(string \<times> string) list \<Rightarrow> string list" where
  "queryArgs_of [] = []"
| "queryArgs_of ((key, val) # ps) =
     (if key = ''_token'' then queryArgs_of ps else key # val # queryArgs_of ps)"

text \<open>\<open>bodyParsed.length > 0 && Array.isArray(bodyParsed[0])\<close>\<close>

fun array_of_arrays :: "js_value list \<Rightarrow> bool" where
  "array_of_arrays (JArr ys # xs) = True"
| "array_of_arrays xs = False"

definition command_from_path :: "string \<Rightarrow> string list \<Rightarrow> message + command" where
  "command_from_path pathname queryArgs =
     (let segments = filter (\<lambda>seg. seg \<noteq> []) (split pathname (CHR ''/''))
      in case segments of
           [] \<Rightarrow> Inl (Text ''No command provided in URL.'')
         | c # rest \<Rightarrow> Inr \<lparr>command = c, args = rest @ queryArgs\<rparr>)"

text \<open>\<open>request.text()\<close> inside its \<open>try\<close>: the empty string when reading the body fails.\<close>

definition request_text :: "request \<Rightarrow> string" where
  "request_text request = (case req_body request of None \<Rightarrow> [] | Some t \<Rightarrow> t)"

text \<open>
  \<open>buildCommand\<close>. \<open>JSON.parse\<close> is the parameter \<open>parse\<close> (\<open>None\<close> when it throws).
  \<open>bodyParsed\<close> starts as null and is assigned only for a POST request with a body that is
  not blank.
\<close>

definition buildCommand ::
  "(int \<Rightarrow> string) \<Rightarrow> (string \<Rightarrow> js_value option) \<Rightarrow> request \<Rightarrow> string \<Rightarrow> message + command" where
  "buildCommand numstr parse request pathname =
     (let text = request_text request;
          queryArgs = queryArgs_of (req_searchParams request)
      in case (if req_method request = ''POST'' \<and> trim text \<noteq> []
               then (case parse text of
                       None \<Rightarrow> Inl (Text ''Unable to parse request body as JSON.'')
                     | Some v \<Rightarrow> Inr v)
               else Inr JNull) of
           Inl e \<Rightarrow> Inl e
         | Inr bodyParsed \<Rightarrow>
             (case bodyParsed of
                JArr xs \<Rightarrow>
                  if array_of_arrays xs
                  then Inl (Text (''Expected a flat JSON array for a single command. '' @
                                  ''For batch commands, please use /pipeline or /multi-exec.''))
                  else (case genericCommandSchema bodyParsed of
                          None \<Rightarrow> Inl SchemaIssues
                        | Some [] \<Rightarrow> Inl SchemaIssues
                        | Some (cmd # rest) \<Rightarrow>
                            Inr \<lparr>command = String_item numstr cmd,
                                 args = map (String_item numstr) rest @ queryArgs\<rparr>)
              | _ \<Rightarrow> command_from_path pathname queryArgs))"

section \<open>Batch execution\<close>

datatype mode = Pipeline | Multi

type_synonym call = "string \<times> string list"

text \<open>One element of the result of \<open>exec\<close>: \<open>[err, result]\<close>, where \<open>err\<close> may be null.\<close>

type_synonym exec_result = "message option \<times> reply"

text \<open>
  The store client returned by \<open>getRedis()\<close>, over a store state \<open>'s\<close>. A call may reject
  with an error (\<open>Inl\<close>). \<open>pipeline_exec\<close> and \<open>multi_exec\<close> are \<open>exec\<close> of an executor made by
  \<open>pipeline()\<close> and by \<open>multi()\<close>, applied to the calls queued into it; \<open>exec\<close> may resolve to
  null (\<open>None\<close>).
\<close>

record 's redis =
  redis_call :: "string \<Rightarrow> string list \<Rightarrow> 's \<Rightarrow> (message + reply) \<times> 's"
  redis_ping :: "'s \<Rightarrow> (message + reply) \<times> 's"
  pipeline_exec :: "call list \<Rightarrow> 's \<Rightarrow> (message + exec_result list option) \<times> 's"
  multi_exec :: "call list \<Rightarrow> 's \<Rightarrow> (message + exec_result list option) \<times> 's"

text \<open>What \<open>executor.call(String(cmd), args.map(String))\<close> queues for a non-empty command.\<close>

definition call_of :: "(int \<Rightarrow> string) \<Rightarrow> item list \<Rightarrow> call" where
  "call_of numstr commandArr =
     (String_item numstr (hd commandArr), map (String_item numstr) (tl commandArr))"

text \<open>
  The loop of \<open>executeBatchCommands\<close>, with the calls queued so far: an empty command throws,
  any other command is queued after the earlier ones. The parameter has the type
  \<open>(string | number)[][]\<close>, so every command is an array.
\<close>

fun queue_commands :: "(int \<Rightarrow> string) \<Rightarrow> item list list \<Rightarrow> call list \<Rightarrow> message + call list" where
  "queue_commands numstr [] queued = Inr queued"
| "queue_commands numstr (commandArr # commands) queued =
     (if commandArr = [] then Inl NonEmptyArrayExpected
      else queue_commands numstr commands (queued @ [call_of numstr commandArr]))"

text \<open>\<open>mode === 'pipeline' ? getRedis().pipeline() : getRedis().multi()\<close>, as its \<open>exec\<close>.\<close>

definition executor :: "'s redis \<Rightarrow> mode \<Rightarrow> call list \<Rightarrow> 's \<Rightarrow> (message + exec_result list option) \<times> 's" where
  "executor R mode = (if mode = Pipeline then pipeline_exec R else multi_exec R)"

definition executeBatchCommands ::
  "(int \<Rightarrow> string) \<Rightarrow> 's redis \<Rightarrow> item list list \<Rightarrow> mode \<Rightarrow> 's \<Rightarrow> (message + exec_result list) \<times> 's" where
  "executeBatchCommands numstr R commands mode s =
     (case queue_commands numstr commands [] of
        Inl e \<Rightarrow> (Inl e, s)
      | Inr queued \<Rightarrow>
          (case executor R mode queued s of
             (Inl e, s') \<Rightarrow> (Inl e, s')
           | (Inr None, s') \<Rightarrow>
               (Inl (Text ((if mode = Pipeline then ''Pipeline'' else ''Transaction'') @ '' failed'')), s')
           | (Inr (Some results), s') \<Rightarrow> (Inr results, s')))"

section \<open>Responses and the request handler\<close>

text \<open>
  The JSON bodies the server sends: \<open>{error: m}\<close>, \<open>{result: v}\<close>,
  \<open>{status: 'healthy', redis: v}\<close>, and an array of bodies.
\<close>

datatype body =
    ErrorBody message
  | ResultBody reply
  | HealthBody reply
  | ArrayBody "body list"

record response =
  status :: nat
  body :: body

definition jsonResponse :: "body \<Rightarrow> nat \<Rightarrow> response" where
  "jsonResponse b st = \<lparr>status = st, body = b\<rparr>"

text \<open>\<open>batchCommandSchema.parse\<close>: an array of arrays of strings and numbers.\<close>

definition batchCommandSchema :: "js_value \<Rightarrow> item list list option" where
  "batchCommandSchema v =
     (case v of
        JArr cs \<Rightarrow>
          those (map (\<lambda>c. case c of JArr xs \<Rightarrow> those (map item_of xs) | _ \<Rightarrow> None) cs)
      | _ \<Rightarrow> None)"

definition handleBatchCommands ::
  "(int \<Rightarrow> string) \<Rightarrow> (string \<Rightarrow> js_value option) \<Rightarrow> 's redis \<Rightarrow> request \<Rightarrow> mode \<Rightarrow> 's \<Rightarrow> response \<times> 's" where
  "handleBatchCommands numstr parse R request mode s =
     (case (case req_body request of
              None \<Rightarrow> None
            | Some t \<Rightarrow> (case parse t of None \<Rightarrow> None | Some v \<Rightarrow> batchCommandSchema v)) of
        None \<Rightarrow>
          (jsonResponse (ErrorBody (Text ''Expected a JSON array of command arrays'')) 400, s)
      | Some commands \<Rightarrow>
          (case executeBatchCommands numstr R commands mode s of
             (Inl e, s') \<Rightarrow> (jsonResponse (ErrorBody e) 400, s')
           | (Inr results, s') \<Rightarrow>
               (jsonResponse
                  (ArrayBody
                     (map (\<lambda>(err, result).
                             case err of
                               Some e \<Rightarrow> ErrorBody e
                             | None \<Rightarrow> ResultBody (formatRedisResponse result request))
                          results))
                  200, s')))"

text \<open>
  \<open>handler\<close>. The result is \<open>Inl\<close> only where the handler itself rejects: when the ping of
  the health check does.
\<close>

definition handler ::
  "string \<Rightarrow> (int \<Rightarrow> string) \<Rightarrow> (string \<Rightarrow> js_value option) \<Rightarrow> 's redis \<Rightarrow> request \<Rightarrow> 's
     \<Rightarrow> (message + response) \<times> 's" where
  "handler AUTH_TOKEN numstr parse R request s =
     (let pathname = req_pathname request
      in if pathname = ''/health''
         then (case redis_ping R s of
                 (Inl e, s') \<Rightarrow> (Inl e, s')
               | (Inr pong, s') \<Rightarrow> (Inr (jsonResponse (HealthBody pong) 200), s'))
         else if \<not> checkAuth AUTH_TOKEN request
         then (Inr (jsonResponse (ErrorBody (Text ''Unauthorized'')) 401), s)
         else if pathname = ''/pipeline'' \<and> req_method request = ''POST''
         then (case handleBatchCommands numstr parse R request Pipeline s of
                 (r, s') \<Rightarrow> (Inr r, s'))
         else if pathname = ''/multi-exec'' \<and> req_method request = ''POST''
         then (case handleBatchCommands numstr parse R request Multi s of
                 (r, s') \<Rightarrow> (Inr r, s'))
         else (case buildCommand numstr parse request pathname of
                 Inl e \<Rightarrow> (Inr (jsonResponse (ErrorBody e) 400), s)
               | Inr c \<Rightarrow>
                   (case redis_call R (command c) (args c) s of
                      (Inl e, s') \<Rightarrow> (Inr (jsonResponse (ErrorBody e) 400), s')
                    | (Inr reply, s') \<Rightarrow>
                        (Inr (jsonResponse (ResultBody (formatRedisResponse reply request)) 200), s'))))"

section \<open>Notions of the specification\<close>

text \<open>
  The token a request supplies, in the words of the specification: the token of an
  \<open>Authorization: Bearer <token>\<close> header, or else the \<open>_token\<close> query parameter; \<open>None\<close>
  when the request supplies neither.
\<close>

definition supplied_token :: "request \<Rightarrow> string option" where
  "supplied_token request =
     (case (case headers_get (req_headers request) ''Authorization'' of
              None \<Rightarrow> None
            | Some h \<Rightarrow> if startsWith h ''Bearer '' \<and> drop 7 h \<noteq> [] then Some (drop 7 h) else None) of
        Some t \<Rightarrow> Some t
      | None \<Rightarrow> searchParams_get (req_searchParams request) ''_token'')"

text \<open>
  The string values of a value, at any depth: through the elements of arrays and the values
  of objects, from left to right.
\<close>

primrec strings_of :: "reply \<Rightarrow> ustring list" where
  "strings_of (RStr s) = [s]"
| "strings_of (RArr xs) = concat (map strings_of xs)"
| "strings_of (RObj kvs) = concat (map snd (map (map_prod id strings_of) kvs))"
| "strings_of (RBuf bs) = []"
| "strings_of RNull = []"
| "strings_of (RBool b) = []"
| "strings_of (RNum n) = []"



text \<open>Whether a request asks for Base64, as \<open>formatRedisResponse\<close> reads it.\<close>

definition requests_base64 :: "request \<Rightarrow> bool" where
  "requests_base64 request =
     (map_option toLowerCase (headers_get (req_headers request) ''Upstash-Encoding'') = Some ''base64'')"

section \<open>Fixtures of the test suite\<close>

text \<open>\<open>parts.join(sep)\<close>\<close>

fun join :: "string list \<Rightarrow> string \<Rightarrow> string" where
  "join [] sep = []"
| "join [x] sep = x"
| "join (x # y # ys) sep = x @ sep @ join (y # ys) sep"

text \<open>
  The \<open>dummyRedis\<close> of the tests, which keeps no state: \<open>call\<close> and the two executors answer
  every call with a string that names it. It has no \<open>ping\<close>, so calling that throws.
\<close>

definition dummyRedis :: "unit redis" where
  "dummyRedis =
     \<lparr>redis_call = (\<lambda>c as s. (Inr (RStr (ustr (''Called: '' @ c @ '' '' @ join as '' ''))), s)),
      redis_ping = (\<lambda>s. (Inl (Text ''TypeError''), s)),
      pipeline_exec =
        (\<lambda>calls s.
           (Inr (Some (map (\<lambda>(c, as). (None, RStr (ustr (''PipelineResult: '' @ c @ '' '' @ join as '' ''))))
                       calls)), s)),
      multi_exec =
        (\<lambda>calls s.
           (Inr (Some (map (\<lambda>(c, as). (None, RStr (ustr (''MultiResult: '' @ c @ '' '' @ join as '' ''))))
                       calls)), s))\<rparr>"


text \<open>
  The request bodies of the tests, as \<open>JSON.stringify\<close> writes them:
  \<open>['echo', 'Hello']\<close>, \<open>[['set', 'key', 'value']]\<close> and the empty string.
\<close>

definition quoted :: "string \<Rightarrow> string" where
  "quoted s = CHR 0x22 # s @ [CHR 0x22]"

definition body_echo_Hello :: string where
  "body_echo_Hello = ''['' @ quoted ''echo'' @ '','' @ quoted ''Hello'' @ '']''"

definition body_set_batch :: string where
  "body_set_batch =
     ''[['' @ quoted ''set'' @ '','' @ quoted ''key'' @ '','' @ quoted ''value'' @ '']]''"

definition body_empty_string :: string where
  "body_empty_string = quoted []"

text \<open>
  \<open>JSON.parse\<close> on those bodies; every other text counts as malformed here, so this parser
  is used only at the bodies listed and at text that is not JSON.
\<close>

definition parse_test_body :: "string \<Rightarrow> js_value option" where
  "parse_test_body t =
     (if t = body_echo_Hello then Some (JArr [JStr ''echo'', JStr ''Hello''])
      else if t = body_set_batch
        then Some (JArr [JArr [JStr ''set'', JStr ''key'', JStr ''value'']])
      else if t = body_empty_string then Some (JStr [])
      else None)"

text \<open>\<open>String(n)\<close> for an integer that the program prints in plain decimal.\<close>

definition decimal_int :: "int \<Rightarrow> string" where
  "decimal_int n = (if n < 0 then CHR ''-'' # decimal (nat (- n)) else decimal (nat n))"

text \<open>\<open>CONSTANTS.DEFAULT_TOKEN\<close>, the secret under which the tests run.\<close>

definition DEFAULT_TOKEN :: string where
  "DEFAULT_TOKEN = ''MY_SUPER_SECRET_TOKEN''"

text \<open>\<open>new Request(url, {method, headers, body})\<close>, with the URL given by its path and query.\<close>

definition Request ::
  "string \<Rightarrow> string \<Rightarrow> (string \<times> string) list \<Rightarrow> (string \<times> string) list \<Rightarrow> string option \<Rightarrow> request" where
  "Request m path query hdrs b =
     \<lparr>req_method = m, req_pathname = path, req_searchParams = query,
      req_headers = hdrs, req_body = b\<rparr>"

section \<open>Authentication in the handler\<close>

lemmas auth_eval = headers_get_def toLowerCase_def toLowerCase_char_def startsWith_def
  searchParams_get_def supplied_token_def Request_def DEFAULT_TOKEN_def







text \<open>
  Claim C10. When the \<open>Authorization\<close> header starts with \<open>Bearer \<close> and a token that is not
  empty follows, \<open>checkAuth\<close> compares that token alone with the secret: its result is the same
  for every query string. So a request with a wrong bearer token is rejected with 401 even
  when its query carries the right \<open>_token\<close>.
\<close>

theorem checkAuth_bearer_only:
  assumes "headers_get (req_headers request) ''Authorization'' = Some h"
      and "startsWith h ''Bearer ''"
      and "drop 7 h \<noteq> []"
  shows "checkAuth AUTH_TOKEN request = (drop 7 h = AUTH_TOKEN)
       \<and> checkAuth AUTH_TOKEN (request\<lparr>req_searchParams := ps\<rparr>) = checkAuth AUTH_TOKEN request
       \<and> (req_pathname request \<noteq> ''/health'' \<and> drop 7 h \<noteq> AUTH_TOKEN \<longrightarrow>
            handler AUTH_TOKEN numstr parse R (request\<lparr>req_searchParams := ps\<rparr>) s =
              (Inr (jsonResponse (ErrorBody (Text ''Unauthorized'')) 401), s))"
  using assms by (simp add: checkAuth_def handler_def)

theorem checkAuth_bearer_only_witness:
  "headers_get (req_headers (Request ''GET'' ''/get/foo'' [] [(''Authorization'', ''Bearer WRONG_TOKEN'')] None))
      ''Authorization'' = Some ''Bearer WRONG_TOKEN''
   \<and> startsWith ''Bearer WRONG_TOKEN'' ''Bearer ''
   \<and> drop 7 ''Bearer WRONG_TOKEN'' \<noteq> []
   \<and> req_pathname (Request ''GET'' ''/get/foo'' [] [(''Authorization'', ''Bearer WRONG_TOKEN'')] None)
       \<noteq> ''/health''
   \<and> drop 7 ''Bearer WRONG_TOKEN'' \<noteq> DEFAULT_TOKEN
   \<and> \<not> checkAuth DEFAULT_TOKEN
         (Request ''GET'' ''/get/foo'' [(''_token'', DEFAULT_TOKEN)]
            [(''Authorization'', ''Bearer WRONG_TOKEN'')] None)
   \<and> handler DEFAULT_TOKEN decimal_int parse_test_body dummyRedis
         (Request ''GET'' ''/get/foo'' [(''_token'', DEFAULT_TOKEN)]
            [(''Authorization'', ''Bearer WRONG_TOKEN'')] None) ()
       = (Inr (jsonResponse (ErrorBody (Text ''Unauthorized'')) 401), ())"
proof -
  let ?r = "Request ''GET'' ''/get/foo'' [] [(''Authorization'', ''Bearer WRONG_TOKEN'')] None"
  have h1: "headers_get (req_headers ?r) ''Authorization'' = Some ''Bearer WRONG_TOKEN''"
    by (simp add: auth_eval)
  have h2: "startsWith ''Bearer WRONG_TOKEN'' ''Bearer ''"
    by (simp add: auth_eval)
  have h3: "drop 7 ''Bearer WRONG_TOKEN'' \<noteq> []"
    by simp
  have h4: "req_pathname ?r \<noteq> ''/health''" "drop 7 ''Bearer WRONG_TOKEN'' \<noteq> DEFAULT_TOKEN"
    by (simp_all add: auth_eval)
  have u: "?r\<lparr>req_searchParams := [(''_token'', DEFAULT_TOKEN)]\<rparr> =
      Request ''GET'' ''/get/foo'' [(''_token'', DEFAULT_TOKEN)]
        [(''Authorization'', ''Bearer WRONG_TOKEN'')] None"
    by (simp add: Request_def)
  show ?thesis
    using checkAuth_bearer_only [OF h1 h2 h3, of DEFAULT_TOKEN "[(''_token'', DEFAULT_TOKEN)]"
        decimal_int parse_test_body dummyRedis "()"] h1 h2 h3 h4
    unfolding u by simp
qed

section \<open>Response formatting: Base64 and flattening\<close>

lemma ustr_Nil [simp]: "ustr [] = []"
  by (simp add: ustr_def)

lemma ustr_inject: "ustr s = ustr t \<longleftrightarrow> s = t"
  unfolding ustr_def by (simp add: inj_map_eq_map inj_of_char)

lemmas format_eval = formatRedisResponse_def requests_base64_def headers_get_def toLowerCase_def
  toLowerCase_char_def Request_def

lemmas base64_eval = ustr_def b64_def base64_alphabet_def

lemma digit_is_digit: "digit d \<in> set ''0123456789''"
proof -
  have "d mod 10 < length ''0123456789''" by simp
  then show ?thesis unfolding digit_def by (rule nth_mem)
qed

lemma decimal_digits: "set (decimal n) \<subseteq> set ''0123456789''"
proof (induction n rule: decimal.induct)
  case (1 n)
  show ?case
  proof (cases "n < 10")
    case True
    then have "decimal n = [digit n]" by (simp add: decimal.simps)
    then show ?thesis using digit_is_digit[of n] by simp
  next
    case False
    then have "decimal n = decimal (n div 10) @ [digit (n mod 10)]" by (simp add: decimal.simps)
    then show ?thesis using 1[OF False] digit_is_digit[of "n mod 10"] by simp
  qed
qed

lemma decimal_not_proto: "ustr (decimal n) \<noteq> ustr ''__proto__''"
proof
  assume "ustr (decimal n) = ustr ''__proto__''"
  then have "decimal n = ''__proto__''" by (simp add: ustr_inject)
  then have "CHR ''_'' \<in> set (decimal n)" by simp
  with decimal_digits[of n] show False by auto
qed

lemma encode_buffer_entries:
  "filter (\<lambda>kv. fst kv \<noteq> ustr ''__proto__'') (map (map_prod id encodeToBase64) (buffer_entries bs))
     = buffer_entries bs"
proof -
  have m: "map (map_prod id encodeToBase64) (buffer_entries bs) = buffer_entries bs"
    by (simp add: buffer_entries_def map_idI split_def)
  have "\<forall>kv \<in> set (buffer_entries bs). fst kv \<noteq> ustr ''__proto__''"
    using decimal_not_proto by (auto simp: buffer_entries_def)
  then show ?thesis unfolding m by simp
qed

lemma encode_entries_twice:
  assumes "\<forall>kv \<in> set kvs. encodeToBase64 (encodeToBase64 (snd kv)) = encodeToBase64 (snd kv)"
  shows "filter (\<lambda>kv. fst kv \<noteq> k)
           (map (map_prod id encodeToBase64)
              (filter (\<lambda>kv. fst kv \<noteq> k) (map (map_prod id encodeToBase64) kvs)))
         = filter (\<lambda>kv. fst kv \<noteq> k) (map (map_prod id encodeToBase64) kvs)"
  using assms by (induction kvs) auto

text \<open>
  Claim C1. \<open>formatRedisResponse\<close> reads one header, \<open>Upstash-Encoding\<close>, and has no RESP2
  encoding: adding the header \<open>Upstash-Response-Format: resp2\<close> to a request changes nothing
  in its result. For the reply \<open>Hello\<close> and a request whose \<open>Upstash-Response-Format\<close> header is
  \<open>resp2\<close> (the request of the test \<open>formatRedisResponse returns RESP2 format when header
  set\<close>) it returns \<open>Hello\<close> itself, not the bulk string \<open>$5\r\nHello\r\n\<close> that the test
  expects; when the Base64 header is present as well, the Base64 encoding is returned.
\<close>

theorem formatRedisResponse_resp2_header_ignored:
  "formatRedisResponse reply
      (request\<lparr>req_headers := (''Upstash-Response-Format'', ''resp2'') # req_headers request\<rparr>)
     = formatRedisResponse reply request
   \<and> formatRedisResponse (RStr (ustr ''Hello''))
      (Request ''GET'' ''/'' [] [(''Upstash-Response-Format'', ''resp2'')] None)
       = RStr (ustr ''Hello'')
   \<and> formatRedisResponse (RStr (ustr ''Hello''))
      (Request ''GET'' ''/'' [] [(''Upstash-Response-Format'', ''resp2'')] None)
       \<noteq> RStr (ustr ''$5'' @ [13, 10] @ ustr ''Hello'' @ [13, 10])
   \<and> formatRedisResponse (RStr (ustr ''Hello''))
      (Request ''GET'' ''/'' []
         [(''Upstash-Response-Format'', ''resp2''), (''Upstash-Encoding'', ''base64'')] None)
       = RStr (ustr ''SGVsbG8='')"
proof -
  have n: "toLowerCase ''Upstash-Response-Format'' \<noteq> toLowerCase ''Upstash-Encoding''"
    by (simp add: toLowerCase_def)
  have "headers_get ((''Upstash-Response-Format'', ''resp2'') # req_headers request) ''Upstash-Encoding''
      = headers_get (req_headers request) ''Upstash-Encoding''"
    using n unfolding headers_get_def by simp
  then have g: "formatRedisResponse reply
      (request\<lparr>req_headers := (''Upstash-Response-Format'', ''resp2'') # req_headers request\<rparr>)
     = formatRedisResponse reply request"
    by (simp add: formatRedisResponse_def)
  show ?thesis
    unfolding g by (simp add: format_eval base64_eval)
qed

text \<open>
  Claim C5. \<open>encodeToBase64\<close> loses the entry of a mapping whose key is \<open>__proto__\<close>,
  whatever its value: for the mapping \<open>{"__proto__": "Hello"}\<close> it returns the empty mapping, not the mapping with the
  encoded value \<open>SGVsbG8=\<close>; through the formatter, with the Base64 header, the reply
  \<open>[{"__proto__": "Hello"}]\<close> comes back as \<open>[{}]\<close>. Every other entry is kept with its value
  encoded, as for \<open>{key: 'value'}\<close> in the tests. The encoded bytes are the UTF-8 bytes: of
  one, two, three and four bytes for \<open>A\<close>, U+00E9, U+20AC and the surrogate pair of U+1F600,
  and those of U+FFFD for a surrogate on its own.
\<close>

theorem encodeToBase64_drops_proto_entry:
  "encodeToBase64 (RObj ((ustr ''__proto__'', v) # kvs)) = encodeToBase64 (RObj kvs)
   \<and> encodeToBase64 (RObj [(ustr ''__proto__'', RStr (ustr ''Hello''))]) = RObj []
   \<and> encodeToBase64 (RObj [(ustr ''__proto__'', RStr (ustr ''Hello''))])
       \<noteq> RObj [(ustr ''__proto__'', RStr (ustr ''SGVsbG8=''))]
   \<and> requests_base64 (Request ''GET'' ''/get/mykey'' [] [(''Upstash-Encoding'', ''base64'')] None)
   \<and> formatRedisResponse (RArr [RObj [(ustr ''__proto__'', RStr (ustr ''Hello''))]])
        (Request ''GET'' ''/get/mykey'' [] [(''Upstash-Encoding'', ''base64'')] None)
       = RArr [RObj []]
   \<and> encodeToBase64 (RObj [(ustr ''key'', RStr (ustr ''value''))])
       = RObj [(ustr ''key'', RStr (ustr ''dmFsdWU=''))]
   \<and> formatRedisResponse (RStr (ustr ''hello''))
        (Request ''GET'' ''/get/mykey'' [] [(''Upstash-Encoding'', ''base64'')] None)
       = RStr (ustr ''aGVsbG8='')
   \<and> encodeToBase64 (RArr [RStr (ustr ''OK''), RNum 1, RNull, RBool True, RStr (ustr ''A'')])
       = RArr [RStr (ustr ''OK''), RNum 1, RNull, RBool True, RStr (ustr ''QQ=='')]
   \<and> encodeToBase64 (RStr [233]) = RStr (ustr ''w6k='')
   \<and> encodeToBase64 (RStr [8364]) = RStr (ustr ''4oKs'')
   \<and> encodeToBase64 (RStr [55357, 56832]) = RStr (ustr ''8J+YgA=='')
   \<and> encodeToBase64 (RStr [55357]) = RStr (ustr ''77+9'')"
proof -
  let ?r = "Request ''GET'' ''/get/mykey'' [] [(''Upstash-Encoding'', ''base64'')] None"
  have dropped: "encodeToBase64 (RObj ((ustr ''__proto__'', v) # kvs)) = encodeToBase64 (RObj kvs)"
    by simp
  have lost: "encodeToBase64 (RObj [(ustr ''__proto__'', RStr (ustr ''Hello''))]) = RObj []"
    by simp
  have header: "requests_base64 ?r"
    by (simp add: format_eval)
  have nested: "formatRedisResponse (RArr [RObj [(ustr ''__proto__'', RStr (ustr ''Hello''))]]) ?r
      = RArr [RObj []]"
    by (simp add: format_eval)
  have kept: "encodeToBase64 (RObj [(ustr ''key'', RStr (ustr ''value''))])
      = RObj [(ustr ''key'', RStr (ustr ''dmFsdWU=''))]"
    by (simp add: base64_eval)
  have hello: "formatRedisResponse (RStr (ustr ''hello'')) ?r = RStr (ustr ''aGVsbG8='')"
    by (simp add: format_eval base64_eval)
  have mixed: "encodeToBase64 (RArr [RStr (ustr ''OK''), RNum 1, RNull, RBool True, RStr (ustr ''A'')])
      = RArr [RStr (ustr ''OK''), RNum 1, RNull, RBool True, RStr (ustr ''QQ=='')]"
    by (simp add: base64_eval)
  have bytes: "encodeToBase64 (RStr [233]) = RStr (ustr ''w6k='')"
    "encodeToBase64 (RStr [8364]) = RStr (ustr ''4oKs'')"
    "encodeToBase64 (RStr [55357, 56832]) = RStr (ustr ''8J+YgA=='')"
    "encodeToBase64 (RStr [55357]) = RStr (ustr ''77+9'')"
    by (simp_all add: base64_eval)
  show ?thesis
    unfolding dropped lost nested kept hello mixed bytes using header by simp
qed

text \<open>
  Claim C6. A byte buffer is an object that is neither null nor an array, so
  \<open>formatRedisResponse\<close> flattens it like a mapping instead of returning it unchanged: for a
  request without headers, the buffer of the bytes of \<open>Hi\<close> comes back as the array
  \<open>['0', 72, '1', 105]\<close>.
\<close>

theorem formatRedisResponse_buffer_flattened:
  "headers_get (req_headers (Request ''GET'' ''/get/mykey'' [] [] None)) ''Upstash-Encoding'' = None
   \<and> headers_get (req_headers (Request ''GET'' ''/get/mykey'' [] [] None)) ''Upstash-Response-Format''
       = None
   \<and> formatRedisResponse (RBuf [72, 105]) (Request ''GET'' ''/get/mykey'' [] [] None)
       = RArr [RStr (ustr ''0''), RNum 72, RStr (ustr ''1''), RNum 105]
   \<and> formatRedisResponse (RBuf [72, 105]) (Request ''GET'' ''/get/mykey'' [] [] None)
       \<noteq> RBuf [72, 105]"
proof -
  let ?r = "Request ''GET'' ''/get/mykey'' [] [] None"
  have none: "headers_get (req_headers ?r) ''Upstash-Encoding'' = None"
    "headers_get (req_headers ?r) ''Upstash-Response-Format'' = None"
    by (simp_all add: headers_get_def Request_def)
  have keys: "buffer_entries [72, 105] = [(ustr ''0'', RNum 72), (ustr ''1'', RNum 105)]"
    by (simp add: buffer_entries_def decimal.simps digit_def)
  have flat: "formatRedisResponse (RBuf [72, 105]) ?r
      = RArr [RStr (ustr ''0''), RNum 72, RStr (ustr ''1''), RNum 105]"
    by (simp add: formatRedisResponse_def none keys flat_entries_def)
  show ?thesis
    unfolding flat using none by simp
qed

text \<open>
  Claim C9, amended. For a value whose strings, at any depth, are all \<open>OK\<close> or empty,
  encoding twice gives the same as encoding once; in particular encoding \<open>OK\<close> changes
  nothing.
\<close>

theorem encodeToBase64_twice:
  "((\<forall>s \<in> set (strings_of v). s = [] \<or> s = ustr ''OK'') \<longrightarrow>
       encodeToBase64 (encodeToBase64 v) = encodeToBase64 v)
   \<and> encodeToBase64 (RStr (ustr ''OK'')) = RStr (ustr ''OK'')"
proof -
  have "(\<forall>s \<in> set (strings_of v). s = [] \<or> s = ustr ''OK'') \<longrightarrow>
          encodeToBase64 (encodeToBase64 v) = encodeToBase64 v"
  proof (induction v)
    case (RStr s)
    show ?case by auto
  next
    case (RArr xs)
    then show ?case by (auto simp: comp_def)
  next
    case (RObj kvs)
    show ?case
    proof
      assume h: "\<forall>s \<in> set (strings_of (RObj kvs)). s = [] \<or> s = ustr ''OK''"
      have "\<forall>kv \<in> set kvs. encodeToBase64 (encodeToBase64 (snd kv)) = encodeToBase64 (snd kv)"
      proof
        fix kv assume kv: "kv \<in> set kvs"
        then have "set (strings_of (snd kv)) \<subseteq> set (strings_of (RObj kvs))"
          by (auto simp: comp_def)
        with h have "\<forall>s \<in> set (strings_of (snd kv)). s = [] \<or> s = ustr ''OK''"
          by blast
        moreover have "snd kv \<in> Basic_BNFs.snds kv"
          by (cases kv) (simp add: snds.simps)
        ultimately show "encodeToBase64 (encodeToBase64 (snd kv)) = encodeToBase64 (snd kv)"
          using RObj.IH[OF kv] by blast
      qed
      then show "encodeToBase64 (encodeToBase64 (RObj kvs)) = encodeToBase64 (RObj kvs)"
        using encode_entries_twice[of kvs "ustr ''__proto__''"] by simp
    qed
  next
    case (RBuf bs)
    show ?case by (simp add: encode_buffer_entries)
  qed simp_all
  then show ?thesis by simp
qed

theorem encodeToBase64_twice_witness:
  "strings_of (RArr [RStr (ustr ''OK''), RNum 5, RObj [(ustr ''k'', RStr [])]]) = [ustr ''OK'', []]
   \<and> encodeToBase64 (encodeToBase64 (RArr [RStr (ustr ''OK''), RNum 5, RObj [(ustr ''k'', RStr [])]]))
       = encodeToBase64 (RArr [RStr (ustr ''OK''), RNum 5, RObj [(ustr ''k'', RStr [])]])"
proof -
  let ?v = "RArr [RStr (ustr ''OK''), RNum 5, RObj [(ustr ''k'', RStr [])]]"
  have h: "\<forall>s \<in> set (strings_of ?v). s = [] \<or> s = ustr ''OK''"
    by simp
  have l: "strings_of ?v = [ustr ''OK'', []]"
    by simp
  show ?thesis
    using encodeToBase64_twice [of ?v] h l
    by blast
qed

text \<open>
  On any other string the second encoding differs from the first: \<open>Hello\<close> becomes
  \<open>SGVsbG8=\<close>, and that becomes \<open>U0dWc2JHOD0=\<close>.
\<close>

theorem encodeToBase64_twice_counterexample:
  "encodeToBase64 (RStr (ustr ''Hello'')) = RStr (ustr ''SGVsbG8='')
   \<and> encodeToBase64 (encodeToBase64 (RStr (ustr ''Hello''))) = RStr (ustr ''U0dWc2JHOD0='')
   \<and> encodeToBase64 (encodeToBase64 (RStr (ustr ''Hello''))) \<noteq> encodeToBase64 (RStr (ustr ''Hello''))"
  by (simp add: base64_eval)

section \<open>Building a command: body, path and query\<close>

lemma queryArgs_of_filter:
  "queryArgs_of ps = concat (map (\<lambda>(k, v). [k, v]) (filter (\<lambda>(k, v). k \<noteq> ''_token'') ps))"
  by (induction ps rule: queryArgs_of.induct) simp_all

lemma genericCommandSchema_flat:
  assumes "those (map item_of ys) = Some rest"
  shows "genericCommandSchema (JArr (JStr c # ys)) = Some (IStr c # rest)"
  using assms by (simp add: genericCommandSchema_def)

lemma buildCommand_unparsed:
  assumes "req_method request \<noteq> ''POST'' \<or> trim (request_text request) = []"
  shows "buildCommand numstr parse request pathname =
           command_from_path pathname (queryArgs_of (req_searchParams request))"
  using assms by (auto simp: buildCommand_def)

lemma buildCommand_parsed:
  assumes "req_method request = ''POST''" and "trim (request_text request) \<noteq> []"
  shows "buildCommand numstr parse request pathname =
     (case parse (request_text request) of
        None \<Rightarrow> Inl (Text ''Unable to parse request body as JSON.'')
      | Some (JArr xs) \<Rightarrow>
          if array_of_arrays xs
          then Inl (Text (''Expected a flat JSON array for a single command. '' @
                          ''For batch commands, please use /pipeline or /multi-exec.''))
          else (case genericCommandSchema (JArr xs) of
                  None \<Rightarrow> Inl SchemaIssues
                | Some [] \<Rightarrow> Inl SchemaIssues
                | Some (cmd # rest) \<Rightarrow>
                    Inr \<lparr>command = String_item numstr cmd,
                         args = map (String_item numstr) rest @ queryArgs_of (req_searchParams request)\<rparr>)
      | Some v \<Rightarrow> command_from_path pathname (queryArgs_of (req_searchParams request)))"
  using assms by (simp add: buildCommand_def split: option.splits js_value.splits)

lemmas body_eval = Request_def request_text_def trim_def is_space_def body_echo_Hello_def
  body_set_batch_def body_empty_string_def quoted_def parse_test_body_def

text \<open>
  Claim C3, amended. The body is parsed only for a POST request whose body is not blank. For
  such a request: a body that is an array starting with a string, all of whose other elements
  are strings or numbers, is the command, whatever the path; a body that is an array whose
  first element is an array raises the error that points to the batch endpoints, whatever
  the path; and whenever the body does not parse or is an array, the result does not depend
  on the path. The path is used when the method is not POST, or the body is absent or blank,
  or the parsed body is not an array.
\<close>

theorem buildCommand_precedence:
  "(req_method request = ''POST'' \<and> trim (request_text request) \<noteq> []
      \<and> parse (request_text request) = Some (JArr (JStr c # ys))
      \<and> those (map item_of ys) = Some rest \<longrightarrow>
        buildCommand numstr parse request pathname =
          Inr \<lparr>command = c,
               args = map (String_item numstr) rest @ queryArgs_of (req_searchParams request)\<rparr>)
   \<and> (req_method request = ''POST'' \<and> trim (request_text request) \<noteq> []
      \<and> parse (request_text request) = Some (JArr (JArr zs # ys)) \<longrightarrow>
        buildCommand numstr parse request pathname =
          Inl (Text (''Expected a flat JSON array for a single command. '' @
                     ''For batch commands, please use /pipeline or /multi-exec.'')))
   \<and> (req_method request = ''POST'' \<and> trim (request_text request) \<noteq> []
      \<and> (parse (request_text request) = None \<or> (\<exists>xs. parse (request_text request) = Some (JArr xs))) \<longrightarrow>
        buildCommand numstr parse request pathname = buildCommand numstr parse request pathname')
   \<and> (req_method request \<noteq> ''POST'' \<or> trim (request_text request) = []
      \<or> (\<exists>v. parse (request_text request) = Some v \<and> (\<forall>xs. v \<noteq> JArr xs)) \<longrightarrow>
        buildCommand numstr parse request pathname =
          command_from_path pathname (queryArgs_of (req_searchParams request)))"
proof (intro conjI impI)
  assume a: "req_method request = ''POST'' \<and> trim (request_text request) \<noteq> []
      \<and> parse (request_text request) = Some (JArr (JStr c # ys))
      \<and> those (map item_of ys) = Some rest"
  then show "buildCommand numstr parse request pathname =
          Inr \<lparr>command = c,
               args = map (String_item numstr) rest @ queryArgs_of (req_searchParams request)\<rparr>"
    by (simp add: buildCommand_parsed genericCommandSchema_flat)
next
  assume "req_method request = ''POST'' \<and> trim (request_text request) \<noteq> []
      \<and> parse (request_text request) = Some (JArr (JArr zs # ys))"
  then show "buildCommand numstr parse request pathname =
          Inl (Text (''Expected a flat JSON array for a single command. '' @
                     ''For batch commands, please use /pipeline or /multi-exec.''))"
    by (simp add: buildCommand_parsed)
next
  assume "req_method request = ''POST'' \<and> trim (request_text request) \<noteq> []
      \<and> (parse (request_text request) = None \<or> (\<exists>xs. parse (request_text request) = Some (JArr xs)))"
  then show "buildCommand numstr parse request pathname = buildCommand numstr parse request pathname'"
    by (auto simp: buildCommand_parsed)
next
  assume a: "req_method request \<noteq> ''POST'' \<or> trim (request_text request) = []
      \<or> (\<exists>v. parse (request_text request) = Some v \<and> (\<forall>xs. v \<noteq> JArr xs))"
  show "buildCommand numstr parse request pathname =
          command_from_path pathname (queryArgs_of (req_searchParams request))"
  proof (cases "req_method request = ''POST'' \<and> trim (request_text request) \<noteq> []")
    case True
    with a obtain v where "parse (request_text request) = Some v" "\<forall>xs. v \<noteq> JArr xs" by auto
    with True show ?thesis by (cases v) (simp_all add: buildCommand_parsed)
  next
    case False
    then show ?thesis by (simp add: buildCommand_unparsed)
  qed
qed

theorem buildCommand_precedence_witness:
  "buildCommand decimal_int parse_test_body
      (Request ''POST'' ''/get/foo'' [] [] (Some body_echo_Hello)) ''/get/foo''
     = Inr \<lparr>command = ''echo'', args = [''Hello'']\<rparr>
   \<and> buildCommand decimal_int parse_test_body
      (Request ''POST'' ''/get/foo'' [] [] (Some body_set_batch)) ''/get/foo''
     = Inl (Text (''Expected a flat JSON array for a single command. '' @
                  ''For batch commands, please use /pipeline or /multi-exec.''))
   \<and> buildCommand decimal_int parse_test_body
      (Request ''POST'' ''/set/foo/bar'' [] [] (Some body_empty_string)) ''/set/foo/bar''
     = Inr \<lparr>command = ''set'', args = [''foo'', ''bar'']\<rparr>"
proof -
  let ?a = "Request ''POST'' ''/get/foo'' [] [] (Some body_echo_Hello)"
  let ?b = "Request ''POST'' ''/get/foo'' [] [] (Some body_set_batch)"
  let ?c = "Request ''POST'' ''/set/foo/bar'' [] [] (Some body_empty_string)"
  have a: "req_method ?a = ''POST'' \<and> trim (request_text ?a) \<noteq> []
      \<and> parse_test_body (request_text ?a) = Some (JArr (JStr ''echo'' # [JStr ''Hello'']))
      \<and> those (map item_of [JStr ''Hello'']) = Some [IStr ''Hello'']"
    by (simp add: body_eval)
  have b: "req_method ?b = ''POST'' \<and> trim (request_text ?b) \<noteq> []
      \<and> parse_test_body (request_text ?b)
          = Some (JArr (JArr [JStr ''set'', JStr ''key'', JStr ''value''] # []))"
    by (simp add: body_eval)
  have c: "req_method ?c \<noteq> ''POST'' \<or> trim (request_text ?c) = []
      \<or> (\<exists>v. parse_test_body (request_text ?c) = Some v \<and> (\<forall>xs. v \<noteq> JArr xs))"
    by (simp add: body_eval)
  have p: "command_from_path ''/set/foo/bar'' (queryArgs_of (req_searchParams ?c))
      = Inr \<lparr>command = ''set'', args = [''foo'', ''bar'']\<rparr>"
    by (simp add: Request_def command_from_path_def)
  have ra: "buildCommand decimal_int parse_test_body ?a ''/get/foo''
      = Inr \<lparr>command = ''echo'', args = map (String_item decimal_int) [IStr ''Hello'']
                                       @ queryArgs_of (req_searchParams ?a)\<rparr>"
    using buildCommand_precedence [of ?a parse_test_body "''echo''" "[JStr ''Hello'']"
        "[IStr ''Hello'']" decimal_int "''/get/foo''"] a
    by blast
  have rb: "buildCommand decimal_int parse_test_body ?b ''/get/foo''
      = Inl (Text (''Expected a flat JSON array for a single command. '' @
                   ''For batch commands, please use /pipeline or /multi-exec.''))"
    using buildCommand_precedence [of ?b parse_test_body _ "[]" _ decimal_int "''/get/foo''"
        "[JStr ''set'', JStr ''key'', JStr ''value'']"] b
    by blast
  have rc: "buildCommand decimal_int parse_test_body ?c ''/set/foo/bar''
      = command_from_path ''/set/foo/bar'' (queryArgs_of (req_searchParams ?c))"
    using buildCommand_precedence [of ?c parse_test_body _ _ _ decimal_int "''/set/foo/bar''"] c
    by blast
  have qa: "queryArgs_of (req_searchParams ?a) = []"
    by (simp add: Request_def)
  show ?thesis
    using ra rb rc p qa by simp
qed

text \<open>
  A request whose method is not POST keeps its body unread: a PUT request with the body
  \<open>["echo","Hello"]\<close>, or with the batch body \<open>[["set","key","value"]]\<close>, and the path
  \<open>/get/foo\<close> yields the command of the path.
\<close>

theorem buildCommand_precedence_counterexample:
  "parse_test_body (request_text (Request ''PUT'' ''/get/foo'' [] [] (Some body_echo_Hello)))
     = Some (JArr [JStr ''echo'', JStr ''Hello''])
   \<and> buildCommand decimal_int parse_test_body
        (Request ''PUT'' ''/get/foo'' [] [] (Some body_echo_Hello)) ''/get/foo''
     = Inr \<lparr>command = ''get'', args = [''foo'']\<rparr>
   \<and> parse_test_body (request_text (Request ''PUT'' ''/get/foo'' [] [] (Some body_set_batch)))
     = Some (JArr [JArr [JStr ''set'', JStr ''key'', JStr ''value'']])
   \<and> buildCommand decimal_int parse_test_body
        (Request ''PUT'' ''/get/foo'' [] [] (Some body_set_batch)) ''/get/foo''
     = Inr \<lparr>command = ''get'', args = [''foo'']\<rparr>"
  by (simp add: body_eval buildCommand_def command_from_path_def)

text \<open>
  Claim C7. When \<open>buildCommand\<close> succeeds, the arguments are the arguments derived from the
  body (the elements after the command name, as strings) or from the path (the segments
  after the first), followed by the key and the value of every query entry whose key is not
  \<open>_token\<close>, in the order of the query.
\<close>

theorem buildCommand_queryArgs:
  assumes "buildCommand numstr parse request pathname = Inr cmd"
  shows "\<exists>derived.
           args cmd = derived @ concat (map (\<lambda>(k, v). [k, v])
                                  (filter (\<lambda>(k, v). k \<noteq> ''_token'') (req_searchParams request)))
         \<and> ((\<exists>xs c rest. parse (request_text request) = Some (JArr xs)
                 \<and> genericCommandSchema (JArr xs) = Some (c # rest)
                 \<and> command cmd = String_item numstr c
                 \<and> derived = map (String_item numstr) rest)
            \<or> filter (\<lambda>seg. seg \<noteq> []) (split pathname (CHR ''/'')) = command cmd # derived)"
proof -
  let ?Q = "queryArgs_of (req_searchParams request)"
  have path: "command_from_path pathname ?Q = Inr cmd \<Longrightarrow>
      \<exists>derived. args cmd = derived @ ?Q
         \<and> filter (\<lambda>seg. seg \<noteq> []) (split pathname (CHR ''/'')) = command cmd # derived"
    by (auto simp: command_from_path_def Let_def split: list.splits)
  show ?thesis
  proof (cases "req_method request = ''POST'' \<and> trim (request_text request) \<noteq> []")
    case False
    with assms have "command_from_path pathname ?Q = Inr cmd"
      by (simp add: buildCommand_unparsed)
    from path[OF this] show ?thesis unfolding queryArgs_of_filter by blast
  next
    case True
    then have eq: "buildCommand numstr parse request pathname = 
     (case parse (request_text request) of
        None \<Rightarrow> Inl (Text ''Unable to parse request body as JSON.'')
      | Some (JArr xs) \<Rightarrow>
          if array_of_arrays xs
          then Inl (Text (''Expected a flat JSON array for a single command. '' @
                          ''For batch commands, please use /pipeline or /multi-exec.''))
          else (case genericCommandSchema (JArr xs) of
                  None \<Rightarrow> Inl SchemaIssues
                | Some [] \<Rightarrow> Inl SchemaIssues
                | Some (cmd # rest) \<Rightarrow>
                    Inr \<lparr>command = String_item numstr cmd,
                         args = map (String_item numstr) rest @ queryArgs_of (req_searchParams request)\<rparr>)
      | Some v \<Rightarrow> command_from_path pathname (queryArgs_of (req_searchParams request)))"
      by (simp add: buildCommand_parsed)
    show ?thesis
    proof (cases "parse (request_text request)")
      case None
      with eq assms show ?thesis by simp
    next
      case (Some v)
      show ?thesis
      proof (cases "\<exists>xs. v = JArr xs")
        case False
        with eq Some assms have "command_from_path pathname ?Q = Inr cmd"
          by (cases v) simp_all
        from path[OF this] show ?thesis unfolding queryArgs_of_filter by blast
      next
        case True
        then obtain xs where v: "v = JArr xs" by blast
        with eq Some assms obtain c rest where
          g: "genericCommandSchema (JArr xs) = Some (c # rest)"
          and c: "cmd = \<lparr>command = String_item numstr c,
                         args = map (String_item numstr) rest @ ?Q\<rparr>"
          by (auto split: if_splits option.splits list.splits)
        from c have "args cmd = map (String_item numstr) rest @ ?Q"
          and "command cmd = String_item numstr c" by simp_all
        with Some v g show ?thesis unfolding queryArgs_of_filter by blast
      qed
    qed
  qed
qed

theorem buildCommand_queryArgs_witness:
  "buildCommand decimal_int parse_test_body
      (Request ''POST'' ''/echo'' [(''_token'', DEFAULT_TOKEN), (''extra'', ''param'')] []
         (Some body_echo_Hello)) ''/echo''
     = Inr \<lparr>command = ''echo'', args = [''Hello'', ''extra'', ''param'']\<rparr>
   \<and> (\<exists>derived. [''Hello'', ''extra'', ''param''] = derived @ [''extra'', ''param''])"
proof -
  let ?r = "Request ''POST'' ''/echo'' [(''_token'', DEFAULT_TOKEN), (''extra'', ''param'')] []
         (Some body_echo_Hello)"
  have b: "buildCommand decimal_int parse_test_body ?r ''/echo''
     = Inr \<lparr>command = ''echo'', args = [''Hello'', ''extra'', ''param'']\<rparr>"
    by (simp add: body_eval buildCommand_def genericCommandSchema_def)
  have q: "concat (map (\<lambda>(k, v). [k, v])
             (filter (\<lambda>(k, v). k \<noteq> ''_token'') (req_searchParams ?r))) = [''extra'', ''param'']"
    by (simp add: Request_def)
  from buildCommand_queryArgs [OF b] obtain derived where
    "args \<lparr>command = ''echo'', args = [''Hello'', ''extra'', ''param'']\<rparr> =
       derived @ concat (map (\<lambda>(k, v). [k, v])
             (filter (\<lambda>(k, v). k \<noteq> ''_token'') (req_searchParams ?r)))"
    by blast
  then have "[''Hello'', ''extra'', ''param''] = derived @ [''extra'', ''param'']"
    unfolding q by simp
  with b show ?thesis by blast
qed

text \<open>
  Claim C8, amended. For a POST request whose body is not blank and does not parse as JSON,
  \<open>buildCommand\<close> raises \<open>Unable to parse request body as JSON.\<close>, whatever the path.
\<close>

theorem buildCommand_unparseable:
  assumes "req_method request = ''POST''"
      and "trim (request_text request) \<noteq> []"
      and "parse (request_text request) = None"
  shows "buildCommand numstr parse request pathname =
           Inl (Text ''Unable to parse request body as JSON.'')"
  using assms by (simp add: buildCommand_parsed)

theorem buildCommand_unparseable_witness:
  "req_method (Request ''POST'' ''/set/foo/bar'' [] [] (Some ''not json'')) = ''POST''
   \<and> trim (request_text (Request ''POST'' ''/set/foo/bar'' [] [] (Some ''not json''))) = ''not json''
   \<and> parse_test_body ''not json'' = None
   \<and> buildCommand decimal_int parse_test_body
        (Request ''POST'' ''/set/foo/bar'' [] [] (Some ''not json'')) ''/set/foo/bar''
     = Inl (Text ''Unable to parse request body as JSON.'')"
proof -
  let ?r = "Request ''POST'' ''/set/foo/bar'' [] [] (Some ''not json'')"
  have m: "req_method ?r = ''POST''"
    by (simp add: Request_def)
  have t: "trim (request_text ?r) = ''not json''"
    by (simp add: body_eval)
  then have t': "trim (request_text ?r) \<noteq> []"
    by simp
  have n: "parse_test_body ''not json'' = None"
    by (simp add: body_eval)
  have n': "parse_test_body (request_text ?r) = None"
    by (simp add: body_eval)
  show ?thesis
    using buildCommand_unparseable [of ?r parse_test_body decimal_int "''/set/foo/bar''"]
      m t t' n n'
    by blast
qed

text \<open>
  For another method that carries a body the text is never parsed: a PUT request with the
  body \<open>not json\<close> and the path \<open>/set/foo/bar\<close> yields the command of the path, not an error.
\<close>

theorem buildCommand_unparseable_counterexample:
  "trim (request_text (Request ''PUT'' ''/set/foo/bar'' [] [] (Some ''not json''))) = ''not json''
   \<and> parse_test_body ''not json'' = None
   \<and> buildCommand decimal_int parse_test_body
        (Request ''PUT'' ''/set/foo/bar'' [] [] (Some ''not json'')) ''/set/foo/bar''
     = Inr \<lparr>command = ''set'', args = [''foo'', ''bar'']\<rparr>"
  by (simp add: body_eval buildCommand_def command_from_path_def)

section \<open>Batch execution: order of the queue and of the results\<close>









end
